theory Spec2Isabelle
  imports Main "HOL-Library.Word" "HOL-Library.DAList"
begin

unbundle bit_operations_syntax

section \<open>Data model of \<^verbatim>\<open>restic/fuse/dir.go\<close>\<close>

text \<open>
  A \<^verbatim>\<open>restic.ID\<close> is a 32-byte array, read here as one 256-bit word. A Go byte
  slice is either \<^verbatim>\<open>nil\<close> (\<open>None\<close>) or a sequence of bytes, possibly empty
  (\<open>Some bs\<close>): \<^verbatim>\<open>Getxattr\<close> compares one against \<^verbatim>\<open>nil\<close>. A \<^verbatim>\<open>time.Time\<close>
  is only copied by this file, so it is an integer instant.
\<close>

type_synonym ID = "256 word"
type_synonym bytes = "8 word list option"
type_synonym Time = int

record ExtendedAttribute =
  xattr_Name :: string
  xattr_Value :: bytes

text \<open>
  The fields of \<^verbatim>\<open>restic.Node\<close> that \<^verbatim>\<open>dir.go\<close> reads. \<open>Type\<close> is a Go
  string (\<^verbatim>\<open>"dir"\<close>, \<^verbatim>\<open>"file"\<close>, \<^verbatim>\<open>"symlink"\<close>, or anything else);
  \<open>Subtree\<close> is a pointer that may be \<^verbatim>\<open>nil\<close>; \<open>Mode\<close> is an \<^verbatim>\<open>os.FileMode\<close>,
  an unsigned 32-bit value.
\<close>

record Node =
  Name :: string
  Type :: string
  Mode :: "32 word"
  ModTime :: Time
  AccessTime :: Time
  ChangeTime :: Time
  UID :: "32 word"
  GID :: "32 word"
  Inode :: "64 word"
  ExtendedAttributes :: "ExtendedAttribute list"
  Subtree :: "ID option"

record Tree =
  Nodes :: "Node list"

text \<open>
  The repository is used through \<^verbatim>\<open>LoadTree\<close> only. Its failures are the
  backing store's own error values, kept apart from the two \<^verbatim>\<open>fuse\<close> errors
  this file returns itself.
\<close>

record Repository =
  LoadTree :: "ID \<Rightarrow> string + Tree"

datatype error =
    ENOENT
  | ErrNoXattr
  | RepoError string
  | NilDereference

type_synonym BlobSizeCache = nat

record dir =
  repo :: Repository
  items :: "(string, Node) alist"
  inode :: "64 word"
  node :: Node
  ownerIsRoot :: bool
  blobsize :: BlobSizeCache

text \<open>
  \<^verbatim>\<open>&dir{...}\<close> allocates a new object each time it is evaluated. The heap is
  the list of the directory objects allocated so far; a pointer is a position
  in it.
\<close>

type_synonym ptr = nat
type_synonym heap = "dir list"

definition new_object :: "dir \<Rightarrow> heap \<Rightarrow> ptr \<times> heap" where
  "new_object d h = (length h, h @ [d])"

definition deref :: "heap \<Rightarrow> ptr \<Rightarrow> dir option" where
  "deref h p = (if p < length h then Some (h ! p) else None)"

record SnapshotWithId =
  snap_Time :: Time
  snap_Tree :: "ID option"
  snap_ID :: ID

text \<open>
  What \<^verbatim>\<open>newDirFromSnapshot\<close> takes from outside this file: the process's
  user and group id, and \<^verbatim>\<open>inodeFromBackendID\<close>, which is defined in another
  file of the package.
\<close>

record environment =
  Getuid :: int
  Getgid :: int
  inodeFromBackendID :: "ID \<Rightarrow> 64 word"

text \<open>\<^verbatim>\<open>os.ModeDir\<close> is bit 31 of a file mode, \<^verbatim>\<open>os.ModePerm\<close> is \<^verbatim>\<open>0777\<close>.\<close>

definition ModeDir :: "32 word" where
  "ModeDir = push_bit 31 1"

definition ModePerm :: "32 word" where
  "ModePerm = 511"

record Attr =
  Attr_Valid :: int
  Attr_Inode :: "64 word"
  Attr_Size :: "64 word"
  Attr_Blocks :: "64 word"
  Attr_Atime :: Time
  Attr_Mtime :: Time
  Attr_Ctime :: Time
  Attr_Crtime :: Time
  Attr_Mode :: "32 word"
  Attr_Nlink :: "32 word"
  Attr_Uid :: "32 word"
  Attr_Gid :: "32 word"
  Attr_Rdev :: "32 word"
  Attr_Flags :: "32 word"
  Attr_BlockSize :: "32 word"

datatype DirentType =
    DT_Unknown
  | DT_Socket
  | DT_Link
  | DT_File
  | DT_Block
  | DT_Dir
  | DT_Char
  | DT_FIFO

record Dirent =
  Dirent_Inode :: "64 word"
  Dirent_Type :: DirentType
  Dirent_Name :: string

record GetxattrResponse =
  Xattr :: bytes

text \<open>
  What \<^verbatim>\<open>Lookup\<close> returns: a pointer to a new directory object, or the handle
  made by one of the two constructors of the sibling files.
\<close>

datatype ('f, 'l) fs_node =
    DirNode ptr
  | FileNode 'f
  | LinkNode 'l

record ('f, 'l) constructors =
  newFile :: "Repository \<Rightarrow> Node \<Rightarrow> bool \<Rightarrow> BlobSizeCache \<Rightarrow> string + 'f"
  newLink :: "Repository \<Rightarrow> Node \<Rightarrow> bool \<Rightarrow> string + 'l"

section \<open>The functions of \<^verbatim>\<open>dir.go\<close>\<close>

text \<open>The loop \<^verbatim>\<open>for _, node := range nodes { items[node.Name] = node }\<close>.\<close>

fun index_nodes :: "Node list \<Rightarrow> (string, Node) alist \<Rightarrow> (string, Node) alist" where
  "index_nodes [] m = m"
| "index_nodes (n # ns) m = index_nodes ns (DAList.update (Name n) n m)"

definition newDir ::
  "Repository \<Rightarrow> Node \<Rightarrow> bool \<Rightarrow> BlobSizeCache \<Rightarrow> heap \<Rightarrow> (error + ptr) \<times> heap" where
  "newDir r nd owner bs h =
     (case Subtree nd of
        None \<Rightarrow> (Inl NilDereference, h)
      | Some s \<Rightarrow>
          (case LoadTree r s of
             Inl err \<Rightarrow> (Inl (RepoError err), h)
           | Inr tree \<Rightarrow>
               (let its = index_nodes (Nodes tree) DAList.empty;
                    (p, h') = new_object
                      \<lparr>repo = r, items = its, inode = Inode nd, node = nd,
                       ownerIsRoot = owner, blobsize = bs\<rparr> h
                in (Inr p, h'))))"

definition replaceSpecialNodes :: "Repository \<Rightarrow> Node \<Rightarrow> error + Node list" where
  "replaceSpecialNodes r nd =
     (if Type nd \<noteq> ''dir'' \<or> Subtree nd = None then Inr [nd]
      else if Name nd \<noteq> ''.'' \<and> Name nd \<noteq> ''/'' then Inr [nd]
      else (case Subtree nd of
              None \<Rightarrow> Inl NilDereference
            | Some s \<Rightarrow>
                (case LoadTree r s of
                   Inl err \<Rightarrow> Inl (RepoError err)
                 | Inr tree \<Rightarrow> Inr (Nodes tree))))"

text \<open>The outer loop of \<^verbatim>\<open>newDirFromSnapshot\<close>, which stops at the first error.\<close>

fun index_snapshot_nodes ::
  "Repository \<Rightarrow> Node list \<Rightarrow> (string, Node) alist \<Rightarrow> error + (string, Node) alist" where
  "index_snapshot_nodes r [] m = Inr m"
| "index_snapshot_nodes r (n # ns) m =
     (case replaceSpecialNodes r n of
        Inl err \<Rightarrow> Inl err
      | Inr nodes \<Rightarrow> index_snapshot_nodes r ns (index_nodes nodes m))"

text \<open>
  The descriptor of a snapshot's root is a \<^verbatim>\<open>restic.Node\<close> literal that sets six
  fields; the others keep Go's zero values.
\<close>

definition snapshot_root_node :: "environment \<Rightarrow> SnapshotWithId \<Rightarrow> Node" where
  "snapshot_root_node env snapshot =
     \<lparr>Name = [], Type = [], Mode = ModeDir OR 365,
      ModTime = snap_Time snapshot, AccessTime = snap_Time snapshot,
      ChangeTime = snap_Time snapshot,
      UID = word_of_int (Getuid env), GID = word_of_int (Getgid env),
      Inode = 0, ExtendedAttributes = [], Subtree = None\<rparr>"

definition newDirFromSnapshot ::
  "environment \<Rightarrow> Repository \<Rightarrow> SnapshotWithId \<Rightarrow> bool \<Rightarrow> BlobSizeCache \<Rightarrow> heap
     \<Rightarrow> (error + ptr) \<times> heap" where
  "newDirFromSnapshot env r snapshot owner bs h =
     (case snap_Tree snapshot of
        None \<Rightarrow> (Inl NilDereference, h)
      | Some t \<Rightarrow>
          (case LoadTree r t of
             Inl err \<Rightarrow> (Inl (RepoError err), h)
           | Inr tree \<Rightarrow>
               (case index_snapshot_nodes r (Nodes tree) DAList.empty of
                  Inl err \<Rightarrow> (Inl err, h)
                | Inr its \<Rightarrow>
                    (let (p, h') = new_object
                           \<lparr>repo = r, items = its,
                            inode = inodeFromBackendID env (snap_ID snapshot),
                            node = snapshot_root_node env snapshot,
                            ownerIsRoot = owner, blobsize = bs\<rparr> h
                     in (Inr p, h')))))"

text \<open>
  The loop of \<^verbatim>\<open>calcNumberOfLinks\<close> over the entries of the map, with the
  \<^verbatim>\<open>uint32\<close> counter as accumulator. Go leaves the order of a map's entries
  open; the model visits them in the order of the association list.
\<close>

fun count_dirs :: "(string \<times> Node) list \<Rightarrow> 32 word \<Rightarrow> 32 word" where
  "count_dirs [] c = c"
| "count_dirs ((k, n) # xs) c = count_dirs xs (if Type n = ''dir'' then c + 1 else c)"

definition calcNumberOfLinks :: "dir \<Rightarrow> 32 word" where
  "calcNumberOfLinks d = count_dirs (DAList.impl_of (items d)) 2"

definition Attr :: "dir \<Rightarrow> Attr \<Rightarrow> Attr" where
  "Attr d a =
     (let a1 = a\<lparr>Attr_Inode := inode d, Attr_Mode := ModeDir OR Mode (node d)\<rparr>;
          a2 = (if \<not> ownerIsRoot d
                then a1\<lparr>Attr_Uid := UID (node d), Attr_Gid := GID (node d)\<rparr>
                else a1)
      in a2\<lparr>Attr_Atime := AccessTime (node d), Attr_Ctime := ChangeTime (node d),
            Attr_Mtime := ModTime (node d), Attr_Nlink := calcNumberOfLinks d\<rparr>)"

text \<open>
  The \<^verbatim>\<open>switch\<close> of \<^verbatim>\<open>ReadDirAll\<close> has no default case: \<^verbatim>\<open>typ\<close> keeps the zero
  value of \<^verbatim>\<open>fuse.DirentType\<close>, which is \<^verbatim>\<open>DT_Unknown\<close>.
\<close>

definition dirent_type :: "string \<Rightarrow> DirentType" where
  "dirent_type t =
     (if t = ''dir'' then DT_Dir
      else if t = ''file'' then DT_File
      else if t = ''symlink'' then DT_Link
      else DT_Unknown)"

fun ReadDirAll_loop :: "(string \<times> Node) list \<Rightarrow> Dirent list \<Rightarrow> Dirent list" where
  "ReadDirAll_loop [] ret = ret"
| "ReadDirAll_loop ((k, n) # xs) ret =
     ReadDirAll_loop xs
       (ret @ [\<lparr>Dirent_Inode = Inode n, Dirent_Type = dirent_type (Type n),
                Dirent_Name = Name n\<rparr>])"

definition ReadDirAll :: "dir \<Rightarrow> error + Dirent list" where
  "ReadDirAll d = Inr (ReadDirAll_loop (DAList.impl_of (items d)) [])"

definition Lookup ::
  "('f, 'l) constructors \<Rightarrow> dir \<Rightarrow> string \<Rightarrow> heap \<Rightarrow> (error + ('f, 'l) fs_node) \<times> heap" where
  "Lookup c d name h =
     (case DAList.lookup (items d) name of
        None \<Rightarrow> (Inl ENOENT, h)
      | Some nd \<Rightarrow>
          if Type nd = ''dir'' then
            (case newDir (repo d) nd (ownerIsRoot d) (blobsize d) h of
               (Inl err, h') \<Rightarrow> (Inl err, h')
             | (Inr p, h') \<Rightarrow> (Inr (DirNode p), h'))
          else if Type nd = ''file'' then
            (case newFile c (repo d) nd (ownerIsRoot d) (blobsize d) of
               Inl err \<Rightarrow> (Inl (RepoError err), h)
             | Inr f \<Rightarrow> (Inr (FileNode f), h))
          else if Type nd = ''symlink'' then
            (case newLink c (repo d) nd (ownerIsRoot d) of
               Inl err \<Rightarrow> (Inl (RepoError err), h)
             | Inr l \<Rightarrow> (Inr (LinkNode l), h))
          else (Inl ENOENT, h))"

text \<open>
  Modelled from the spec: \<^verbatim>\<open>restic.Node.GetExtendedAttribute\<close>, a method of
  another package that \<^verbatim>\<open>Getxattr\<close> calls. The spec has it scan the attributes
  in order for an entry whose name matches byte for byte and return that
  entry's bytes; the caller's test against \<^verbatim>\<open>nil\<close> shows that it returns
  \<^verbatim>\<open>nil\<close> when there is none.
\<close>

definition GetExtendedAttribute :: "Node \<Rightarrow> string \<Rightarrow> bytes" where
  "GetExtendedAttribute nd a =
     (case find (\<lambda>x. xattr_Name x = a) (ExtendedAttributes nd) of
        None \<Rightarrow> None
      | Some x \<Rightarrow> xattr_Value x)"

definition Getxattr :: "dir \<Rightarrow> string \<Rightarrow> GetxattrResponse \<Rightarrow> error + GetxattrResponse" where
  "Getxattr d req_Name resp =
     (let attrval = GetExtendedAttribute (node d) req_Name
      in if attrval \<noteq> None then Inr (resp\<lparr>Xattr := attrval\<rparr>) else Inl ErrNoXattr)"

section \<open>Example data\<close>

text \<open>
  The example of the specification: the snapshot's tree (id 1) lists one
  directory named \<^verbatim>\<open>.\<close> whose subtree (id 2) lists the file \<^verbatim>\<open>a.txt\<close> and
  the directory \<^verbatim>\<open>sub\<close>, whose subtree (id 3) is empty. Tree 4 lists two
  entries with special names and no subtree. No other tree exists.
\<close>

definition example_node :: "string \<Rightarrow> string \<Rightarrow> 32 word \<Rightarrow> ID option \<Rightarrow> Node" where
  "example_node nm ty md st =
     \<lparr>Name = nm, Type = ty, Mode = md, ModTime = 7, AccessTime = 8, ChangeTime = 9,
      UID = 1000, GID = 100, Inode = 42, ExtendedAttributes = [], Subtree = st\<rparr>"

definition example_repo :: Repository where
  "example_repo =
     \<lparr>LoadTree = (\<lambda>i.
        if i = 1 then Inr \<lparr>Nodes = [example_node ''.'' ''dir'' 493 (Some 2)]\<rparr>
        else if i = 2 then
          Inr \<lparr>Nodes = [example_node ''a.txt'' ''file'' 420 None,
                        example_node ''sub'' ''dir'' 493 (Some 3)]\<rparr>
        else if i = 3 then Inr \<lparr>Nodes = []\<rparr>
        else if i = 4 then
          Inr \<lparr>Nodes = [example_node ''/'' ''dir'' 493 None,
                        example_node ''.'' ''symlink'' 511 None]\<rparr>
        else Inl ''tree not found'')\<rparr>"

definition example_snapshot :: SnapshotWithId where
  "example_snapshot = \<lparr>snap_Time = 1500000000, snap_Tree = Some 1, snap_ID = 77\<rparr>"

definition example_snapshot_plain :: SnapshotWithId where
  "example_snapshot_plain = \<lparr>snap_Time = 1500000000, snap_Tree = Some 4, snap_ID = 78\<rparr>"

definition example_env :: environment where
  "example_env = \<lparr>Getuid = 1000, Getgid = 100, inodeFromBackendID = (\<lambda>i. ucast i)\<rparr>"

definition dot_without_subtree :: Node where
  "dot_without_subtree = example_node ''.'' ''dir'' 493 None"

definition example_constructors :: "(string, string) constructors" where
  "example_constructors =
     \<lparr>newFile = (\<lambda>r n owner bs. Inr (Name n)), newLink = (\<lambda>r n owner. Inr (Name n))\<rparr>"

definition example_attr :: Attr where
  "example_attr =
     \<lparr>Attr_Valid = 0, Attr_Inode = 0, Attr_Size = 0, Attr_Blocks = 0, Attr_Atime = 0,
      Attr_Mtime = 0, Attr_Ctime = 0, Attr_Crtime = 0, Attr_Mode = 0, Attr_Nlink = 0,
      Attr_Uid = 0, Attr_Gid = 0, Attr_Rdev = 0, Attr_Flags = 0, Attr_BlockSize = 0\<rparr>"

text \<open>
  A directory as \<^verbatim>\<open>/tmp\<close> is stored: its mode has the directory bit, the
  sticky bit (bit 20) and the permissions \<^verbatim>\<open>0777\<close>. One of its children is
  a named pipe, and the first of its two extended attributes has a
  \<^verbatim>\<open>nil\<close> value.
\<close>

definition example_dir :: dir where
  "example_dir =
     \<lparr>repo = example_repo,
      items = index_nodes
        [example_node ''a.txt'' ''file'' 420 None,
         example_node ''sub'' ''dir'' 2147484141 (Some 3),
         example_node ''pipe'' ''fifo'' 420 None] DAList.empty,
      inode = 5,
      node = (example_node ''tmp'' ''dir'' 2148532735 (Some 2))
        \<lparr>ExtendedAttributes :=
           [\<lparr>xattr_Name = ''user.empty'', xattr_Value = None\<rparr>,
            \<lparr>xattr_Name = ''user.Comment'', xattr_Value = Some [104, 105]\<rparr>]\<rparr>,
      ownerIsRoot = False, blobsize = 0\<rparr>"

section \<open>Properties of the iteration functions\<close>

lemma lookup_index_nodes:
  "DAList.lookup (index_nodes ns m) k =
     (if filter (\<lambda>x. Name x = k) ns = [] then DAList.lookup m k
      else Some (last (filter (\<lambda>x. Name x = k) ns)))"
  by (induction ns arbitrary: m) (simp_all add: lookup_update)

lemma keys_index_nodes:
  "fst ` set (DAList.impl_of (index_nodes ns m)) = Name ` set ns \<union> fst ` set (DAList.impl_of m)"
  by (induction ns arbitrary: m) (auto simp: update.rep_eq dom_update)

lemma index_snapshot_nodes_plain:
  "\<forall>n \<in> set ns. Type n \<noteq> ''dir'' \<or> Subtree n = None \<Longrightarrow>
     index_snapshot_nodes r ns m = Inr (index_nodes ns m)"
  by (induction ns arbitrary: m) (simp_all add: replaceSpecialNodes_def)

lemma count_dirs_eq:
  "count_dirs xs c = c + word_of_nat (length (filter (\<lambda>kn. Type (snd kn) = ''dir'') xs))"
  by (induction xs c rule: count_dirs.induct) simp_all

lemma ReadDirAll_loop_eq:
  "ReadDirAll_loop xs ret =
     ret @ map (\<lambda>kn. \<lparr>Dirent_Inode = Inode (snd kn), Dirent_Type = dirent_type (Type (snd kn)),
                      Dirent_Name = Name (snd kn)\<rparr>) xs"
  by (induction xs ret rule: ReadDirAll_loop.induct) simp_all

lemma newDir_not_ENOENT: "fst (newDir r nd owner bs h) \<noteq> Inl ENOENT"
  by (simp add: newDir_def new_object_def split: option.splits sum.splits)

lemma items_example_dir:
  "DAList.impl_of (items example_dir) =
     [(''a.txt'', example_node ''a.txt'' ''file'' 420 None),
      (''sub'', example_node ''sub'' ''dir'' 2147484141 (Some 3)),
      (''pipe'', example_node ''pipe'' ''fifo'' 420 None)]"
  by (simp add: example_dir_def example_node_def update.rep_eq empty.rep_eq)

lemma lookup_example_dir:
  "DAList.lookup (items example_dir) k =
     (if k = ''a.txt'' then Some (example_node ''a.txt'' ''file'' 420 None)
      else if k = ''sub'' then Some (example_node ''sub'' ''dir'' 2147484141 (Some 3))
      else if k = ''pipe'' then Some (example_node ''pipe'' ''fifo'' 420 None)
      else None)"
  by (simp add: lookup.rep_eq items_example_dir)

section \<open>The directory factory\<close>

text \<open>
  C1. Let the snapshot's tree list a single descriptor, a directory named
  \<^verbatim>\<open>.\<close> whose subtree is \<open>s\<close>, and let both trees load. Then
  \<^verbatim>\<open>newDirFromSnapshot\<close> and \<^verbatim>\<open>newDir\<close> on a node whose subtree is \<open>s\<close> both
  return a directory, and the two have the same children: the same names
  mapped to the same descriptors.
\<close>

theorem snapshot_dot_root_same_children:
  assumes "snap_Tree snapshot = Some t" and "LoadTree r t = Inr tree" and "Nodes tree = [n]"
    and "Type n = ''dir''" and "Name n = ''.''" and "Subtree n = Some s"
    and "LoadTree r s = Inr subtree" and "Subtree nd = Some s"
  shows "\<exists>p h1 d1 q h2 d2.
           newDirFromSnapshot env r snapshot owner bs h = (Inr p, h1) \<and> deref h1 p = Some d1
         \<and> newDir r nd owner' bs' h' = (Inr q, h2) \<and> deref h2 q = Some d2
         \<and> items d1 = items d2"
  using assms
  by (simp add: newDirFromSnapshot_def newDir_def replaceSpecialNodes_def new_object_def
      deref_def)

theorem snapshot_dot_root_same_children_witness:
  "\<exists>p h1 d1 q h2 d2.
     newDirFromSnapshot example_env example_repo example_snapshot True 0 [] = (Inr p, h1)
   \<and> deref h1 p = Some d1
   \<and> newDir example_repo (example_node ''.'' ''dir'' 493 (Some 2)) True 0 [] = (Inr q, h2)
   \<and> deref h2 q = Some d2
   \<and> items d1 = items d2
   \<and> fst ` set (DAList.impl_of (items d1)) = {''a.txt'', ''sub''}"
proof -
  let ?dot = "example_node ''.'' ''dir'' 493 (Some 2)"
  let ?sub = "\<lparr>Nodes = [example_node ''a.txt'' ''file'' 420 None,
                         example_node ''sub'' ''dir'' 493 (Some 3)]\<rparr>"
  have a: "snap_Tree example_snapshot = Some 1"
    by (simp add: example_snapshot_def)
  have b: "LoadTree example_repo 1 = Inr \<lparr>Nodes = [?dot]\<rparr>"
    by (simp add: example_repo_def)
  have c: "Nodes \<lparr>Nodes = [?dot]\<rparr> = [?dot]"
    by simp
  have d: "Type ?dot = ''dir''" and e: "Name ?dot = ''.''" and f: "Subtree ?dot = Some 2"
    by (simp_all add: example_node_def)
  have g: "LoadTree example_repo 2 = Inr ?sub"
    by (simp add: example_repo_def)
  from snapshot_dot_root_same_children [OF a b c d e f g f,
      of example_env True 0 "[]" True 0 "[]"]
  obtain p h1 d1 q h2 d2 where
    1: "newDirFromSnapshot example_env example_repo example_snapshot True 0 [] = (Inr p, h1)"
    and 2: "deref h1 p = Some d1"
    and 3: "newDir example_repo ?dot True 0 [] = (Inr q, h2)"
    and 4: "deref h2 q = Some d2"
    and 5: "items d1 = items d2"
    by blast
  have k: "fst ` set (DAList.impl_of (index_nodes (Nodes ?sub) DAList.empty)) =
      {''a.txt'', ''sub''}"
    by (simp only: keys_index_nodes) (simp add: empty.rep_eq example_node_def)
  from 3 4 f g have "items d2 = index_nodes (Nodes ?sub) DAList.empty"
    by (auto simp: newDir_def new_object_def deref_def)
  with 5 k have "fst ` set (DAList.impl_of (items d1)) = {''a.txt'', ''sub''}"
    by (simp only:)
  with 1 2 3 4 5 show ?thesis
    by blast
qed

text \<open>
  C2. The claim lets \<^verbatim>\<open>replaceSpecialNodes\<close> return the contents of the subtree
  for every directory named \<^verbatim>\<open>.\<close> or \<^verbatim>\<open>/\<close>. A directory named \<^verbatim>\<open>.\<close> whose
  subtree reference is \<^verbatim>\<open>nil\<close> is returned as it is, in a one-element list.
\<close>

theorem replaceSpecialNodes_dot_without_subtree:
  "Type dot_without_subtree = ''dir'' \<and> Name dot_without_subtree = ''.''
   \<and> Subtree dot_without_subtree = None
   \<and> replaceSpecialNodes example_repo dot_without_subtree = Inr [dot_without_subtree]"
  by (simp add: dot_without_subtree_def example_node_def replaceSpecialNodes_def)

text \<open>
  C2, as amended. \<^verbatim>\<open>replaceSpecialNodes\<close> returns the descriptors of the node's
  subtree, as \<^verbatim>\<open>LoadTree\<close> lists them and without replacing any of them in
  turn, when the node is a directory named \<^verbatim>\<open>.\<close> or \<^verbatim>\<open>/\<close> whose subtree
  reference is present and loads; when that load fails it returns the load's
  error. In every other case it returns the one-element list of the node
  itself.
\<close>

theorem replaceSpecialNodes_rule:
  "(Type nd = ''dir'' \<and> (Name nd = ''.'' \<or> Name nd = ''/'') \<and> Subtree nd = Some s
      \<and> LoadTree r s = Inr tree \<longrightarrow> replaceSpecialNodes r nd = Inr (Nodes tree))
   \<and> (Type nd = ''dir'' \<and> (Name nd = ''.'' \<or> Name nd = ''/'') \<and> Subtree nd = Some s
      \<and> LoadTree r s = Inl err \<longrightarrow> replaceSpecialNodes r nd = Inl (RepoError err))
   \<and> (\<not> (Type nd = ''dir'' \<and> (Name nd = ''.'' \<or> Name nd = ''/'') \<and> Subtree nd \<noteq> None)
      \<longrightarrow> replaceSpecialNodes r nd = Inr [nd])"
  by (auto simp: replaceSpecialNodes_def)

theorem replaceSpecialNodes_rule_witness:
  "replaceSpecialNodes example_repo (example_node ''/'' ''dir'' 493 (Some 1)) =
     Inr [example_node ''.'' ''dir'' 493 (Some 2)]
   \<and> replaceSpecialNodes example_repo (example_node ''.'' ''dir'' 493 (Some 9)) =
     Inl (RepoError ''tree not found'')
   \<and> replaceSpecialNodes example_repo (example_node ''sub'' ''dir'' 493 (Some 3)) =
     Inr [example_node ''sub'' ''dir'' 493 (Some 3)]
   \<and> replaceSpecialNodes example_repo (example_node ''.'' ''file'' 420 (Some 2)) =
     Inr [example_node ''.'' ''file'' 420 (Some 2)]"
proof -
  have "replaceSpecialNodes example_repo (example_node ''/'' ''dir'' 493 (Some 1)) =
      Inr [example_node ''.'' ''dir'' 493 (Some 2)]"
    using replaceSpecialNodes_rule [where nd = "example_node ''/'' ''dir'' 493 (Some 1)"
        and s = 1 and r = example_repo
        and tree = "\<lparr>Nodes = [example_node ''.'' ''dir'' 493 (Some 2)]\<rparr>" and err = "[]"]
    by (simp add: example_repo_def example_node_def)
  moreover
  have "replaceSpecialNodes example_repo (example_node ''.'' ''dir'' 493 (Some 9)) =
      Inl (RepoError ''tree not found'')"
    using replaceSpecialNodes_rule [where nd = "example_node ''.'' ''dir'' 493 (Some 9)"
        and s = 9 and r = example_repo and tree = "\<lparr>Nodes = []\<rparr>"
        and err = "''tree not found''"]
    by (simp add: example_repo_def example_node_def)
  moreover
  have "replaceSpecialNodes example_repo (example_node ''sub'' ''dir'' 493 (Some 3)) =
      Inr [example_node ''sub'' ''dir'' 493 (Some 3)]"
    using replaceSpecialNodes_rule [where nd = "example_node ''sub'' ''dir'' 493 (Some 3)"
        and s = 3 and r = example_repo and tree = "\<lparr>Nodes = []\<rparr>" and err = "[]"]
    by (simp add: example_node_def)
  moreover
  have "replaceSpecialNodes example_repo (example_node ''.'' ''file'' 420 (Some 2)) =
      Inr [example_node ''.'' ''file'' 420 (Some 2)]"
    using replaceSpecialNodes_rule [where nd = "example_node ''.'' ''file'' 420 (Some 2)"
        and s = 2 and r = example_repo and tree = "\<lparr>Nodes = []\<rparr>" and err = "[]"]
    by (simp add: example_node_def)
  ultimately show ?thesis
    by simp
qed

text \<open>
  C3. When the node's subtree loads, \<^verbatim>\<open>newDir\<close> returns a new directory whose
  keys are exactly the names of the loaded descriptors, each name mapped to
  the last descriptor of the listing that carries it. No descriptor is
  replaced by its contents on this path: a listed directory named \<^verbatim>\<open>.\<close> is a
  child like any other.
\<close>

theorem newDir_indexes_by_name:
  assumes "Subtree nd = Some s" and "LoadTree r s = Inr tree"
  shows "\<exists>p h' d. newDir r nd owner bs h = (Inr p, h') \<and> deref h' p = Some d
           \<and> fst ` set (DAList.impl_of (items d)) = Name ` set (Nodes tree)
           \<and> (\<forall>k. DAList.lookup (items d) k =
                 (if filter (\<lambda>x. Name x = k) (Nodes tree) = [] then None
                  else Some (last (filter (\<lambda>x. Name x = k) (Nodes tree)))))"
  using assms
  by (simp add: newDir_def new_object_def deref_def keys_index_nodes lookup_index_nodes
      empty.rep_eq)

theorem newDir_indexes_by_name_witness:
  "\<exists>p h' d. newDir example_repo (example_node ''root'' ''dir'' 493 (Some 1)) False 0 [] = (Inr p, h')
      \<and> deref h' p = Some d
      \<and> fst ` set (DAList.impl_of (items d)) = {''.''}
      \<and> DAList.lookup (items d) ''.'' = Some (example_node ''.'' ''dir'' 493 (Some 2))
      \<and> DAList.lookup (items d) ''a.txt'' = None"
proof -
  have a: "Subtree (example_node ''root'' ''dir'' 493 (Some 1)) = Some 1"
    by (simp add: example_node_def)
  have b: "LoadTree example_repo 1 = Inr \<lparr>Nodes = [example_node ''.'' ''dir'' 493 (Some 2)]\<rparr>"
    by (simp add: example_repo_def)
  from newDir_indexes_by_name [OF a b, of False 0 "[]"]
  obtain p h' d where
    "newDir example_repo (example_node ''root'' ''dir'' 493 (Some 1)) False 0 [] = (Inr p, h')"
    "deref h' p = Some d"
    "fst ` set (DAList.impl_of (items d)) = Name ` set [example_node ''.'' ''dir'' 493 (Some 2)]"
    "\<forall>k. DAList.lookup (items d) k =
       (if filter (\<lambda>x. Name x = k) [example_node ''.'' ''dir'' 493 (Some 2)] = [] then None
        else Some (last (filter (\<lambda>x. Name x = k) [example_node ''.'' ''dir'' 493 (Some 2)])))"
    by auto
  then show ?thesis
    by (intro exI [of _ p] exI [of _ h'] exI [of _ d]) (simp add: example_node_def)
qed

text \<open>
  C10. A node that is not a directory, or whose subtree reference is \<^verbatim>\<open>nil\<close>,
  comes back from \<^verbatim>\<open>replaceSpecialNodes\<close> unchanged in a one-element list,
  whatever its name and whatever the repository would answer: no tree is
  loaded and no \<^verbatim>\<open>nil\<close> reference is followed. So when the snapshot's tree
  loads and lists only such nodes, \<^verbatim>\<open>newDirFromSnapshot\<close> returns a directory,
  which indexes them as they are.
\<close>

theorem replaceSpecialNodes_passes_through:
  "(Type nd \<noteq> ''dir'' \<or> Subtree nd = None \<longrightarrow> replaceSpecialNodes r nd = Inr [nd])
   \<and> (snap_Tree snapshot = Some t \<and> LoadTree r t = Inr tree
        \<and> (\<forall>n \<in> set (Nodes tree). Type n \<noteq> ''dir'' \<or> Subtree n = None)
      \<longrightarrow> (\<exists>p h' d. newDirFromSnapshot env r snapshot owner bs h = (Inr p, h')
             \<and> deref h' p = Some d \<and> items d = index_nodes (Nodes tree) DAList.empty))"
  by (auto simp: replaceSpecialNodes_def newDirFromSnapshot_def index_snapshot_nodes_plain
      new_object_def deref_def)

theorem replaceSpecialNodes_passes_through_witness:
  "replaceSpecialNodes example_repo (example_node ''/'' ''dir'' 493 None) =
     Inr [example_node ''/'' ''dir'' 493 None]
   \<and> (\<exists>p h' d.
        newDirFromSnapshot example_env example_repo example_snapshot_plain False 0 [] = (Inr p, h')
      \<and> deref h' p = Some d
      \<and> items d = index_nodes [example_node ''/'' ''dir'' 493 None,
                               example_node ''.'' ''symlink'' 511 None] DAList.empty)"
  using replaceSpecialNodes_passes_through [where nd = "example_node ''/'' ''dir'' 493 None"
      and r = example_repo and snapshot = example_snapshot_plain and t = 4
      and tree = "\<lparr>Nodes = [example_node ''/'' ''dir'' 493 None,
                              example_node ''.'' ''symlink'' 511 None]\<rparr>"
      and env = example_env and owner = False and bs = 0 and h = "[]"]
  by (simp add: example_repo_def example_node_def example_snapshot_plain_def)

section \<open>Attributes and listing\<close>

text \<open>
  C5. The claim lets only the permission bits of the descriptor's mode reach
  the reported mode. The example directory's mode carries the sticky bit,
  which is no permission bit, and \<^verbatim>\<open>Attr\<close> reports it.
\<close>

theorem Attr_mode_sticky_bit_example:
  "Mode (node example_dir) = 2148532735
   \<and> Attr_Mode (Attr example_dir example_attr) = 2148532735
   \<and> ModeDir OR (Mode (node example_dir) AND ModePerm) = 2147484159
   \<and> Attr_Mode (Attr example_dir example_attr) \<noteq>
       ModeDir OR (Mode (node example_dir) AND ModePerm)"
  by (simp add: Attr_def example_dir_def example_node_def ModeDir_def ModePerm_def)

text \<open>
  C5, as amended. The mode that \<^verbatim>\<open>Attr\<close> reports is the directory bit or'ed
  with the whole mode of the node's own descriptor, every bit of it.
\<close>

theorem Attr_mode:
  "Attr_Mode (Attr d a) = ModeDir OR Mode (node d)"
  by (simp add: Attr_def Let_def)

theorem Attr_mode_witness:
  "Attr_Mode (Attr example_dir example_attr) = 2148532735"
  using Attr_mode [of example_dir example_attr]
  by (simp add: example_dir_def example_node_def ModeDir_def)

text \<open>
  C6. The claim lets every listed entry have the type of a directory, a file
  or a symlink. The example directory has a child of kind \<^verbatim>\<open>fifo\<close>, and
  \<^verbatim>\<open>ReadDirAll\<close> lists it with the type \<^verbatim>\<open>DT_Unknown\<close>.
\<close>

theorem ReadDirAll_unknown_type_example:
  "ReadDirAll example_dir =
     Inr [\<lparr>Dirent_Inode = 42, Dirent_Type = DT_File, Dirent_Name = ''a.txt''\<rparr>,
          \<lparr>Dirent_Inode = 42, Dirent_Type = DT_Dir, Dirent_Name = ''sub''\<rparr>,
          \<lparr>Dirent_Inode = 42, Dirent_Type = DT_Unknown, Dirent_Name = ''pipe''\<rparr>]"
  by (simp add: ReadDirAll_def items_example_dir example_node_def dirent_type_def)

text \<open>
  C6, as amended. \<^verbatim>\<open>ReadDirAll\<close> returns one entry for each child, as many
  entries as there are children. An entry has its child's name and inode;
  its type is that of a directory, a file or a symlink when the child's kind
  is \<^verbatim>\<open>dir\<close>, \<^verbatim>\<open>file\<close> or \<^verbatim>\<open>symlink\<close>, and \<^verbatim>\<open>DT_Unknown\<close> for a child
  of any other kind.
\<close>

theorem ReadDirAll_entries:
  "\<exists>es. ReadDirAll d = Inr es \<and> length es = size (items d)
     \<and> (\<forall>i < length es.
           Dirent_Name (es ! i) = Name (snd (DAList.impl_of (items d) ! i))
         \<and> Dirent_Inode (es ! i) = Inode (snd (DAList.impl_of (items d) ! i))
         \<and> Dirent_Type (es ! i) =
             (let t = Type (snd (DAList.impl_of (items d) ! i)) in
              if t = ''dir'' then DT_Dir else if t = ''file'' then DT_File
              else if t = ''symlink'' then DT_Link else DT_Unknown))"
  by (simp add: ReadDirAll_def ReadDirAll_loop_eq size_alist_def dirent_type_def)

theorem ReadDirAll_entries_witness:
  "\<exists>es. ReadDirAll example_dir = Inr es \<and> length es = 3
     \<and> Dirent_Type (es ! 0) = DT_File \<and> Dirent_Type (es ! 1) = DT_Dir
     \<and> Dirent_Type (es ! 2) = DT_Unknown \<and> Dirent_Name (es ! 2) = ''pipe''"
proof -
  from ReadDirAll_entries [of example_dir] obtain es where
    r: "ReadDirAll example_dir = Inr es"
    and l: "length es = size (items example_dir)"
    and e: "\<And>i. i < length es \<Longrightarrow>
           Dirent_Name (es ! i) = Name (snd (DAList.impl_of (items example_dir) ! i))
         \<and> Dirent_Inode (es ! i) = Inode (snd (DAList.impl_of (items example_dir) ! i))
         \<and> Dirent_Type (es ! i) =
             (let t = Type (snd (DAList.impl_of (items example_dir) ! i)) in
              if t = ''dir'' then DT_Dir else if t = ''file'' then DT_File
              else if t = ''symlink'' then DT_Link else DT_Unknown)"
    by blast
  have l3: "length es = 3"
    using l by (simp add: size_alist_def items_example_dir)
  have "Dirent_Type (es ! 0) = DT_File"
    using e [of 0] l3 by (simp add: items_example_dir example_node_def)
  moreover have "Dirent_Type (es ! 1) = DT_Dir"
    using e [of 1] l3 by (simp add: items_example_dir example_node_def)
  moreover have "Dirent_Type (es ! 2) = DT_Unknown \<and> Dirent_Name (es ! 2) = ''pipe''"
    using e [of 2] l3 by (simp add: items_example_dir example_node_def)
  ultimately show ?thesis
    using r l3 by blast
qed

text \<open>
  C7. The link count that \<^verbatim>\<open>Attr\<close> reports is 2 plus the number of children
  of kind \<^verbatim>\<open>dir\<close>, as the \<^verbatim>\<open>uint32\<close> that \<^verbatim>\<open>calcNumberOfLinks\<close> counts in; read
  as a number it is that sum whenever the sum is below \<open>2 ^ 32\<close>.
\<close>

theorem Attr_link_count:
  "Attr_Nlink (Attr d a) =
     2 + word_of_nat (length (filter (\<lambda>kn. Type (snd kn) = ''dir'') (DAList.impl_of (items d))))
   \<and> (2 + length (filter (\<lambda>kn. Type (snd kn) = ''dir'') (DAList.impl_of (items d))) < 2 ^ 32
      \<longrightarrow> unat (Attr_Nlink (Attr d a)) =
            2 + length (filter (\<lambda>kn. Type (snd kn) = ''dir'') (DAList.impl_of (items d))))"
proof -
  let ?c = "length (filter (\<lambda>kn. Type (snd kn) = ''dir'') (DAList.impl_of (items d)))"
  have eq: "Attr_Nlink (Attr d a) = 2 + word_of_nat ?c"
    by (simp add: Attr_def Let_def calcNumberOfLinks_def count_dirs_eq)
  have "unat (2 + word_of_nat ?c :: 32 word) = 2 + ?c" if "2 + ?c < 2 ^ 32"
  proof -
    have "(2 + word_of_nat ?c :: 32 word) = word_of_nat (2 + ?c)" by simp
    then show ?thesis using that by (simp only: unat_of_nat) simp
  qed
  with eq show ?thesis by simp
qed

theorem Attr_link_count_witness:
  "Attr_Nlink (Attr example_dir example_attr) = 3
   \<and> unat (Attr_Nlink (Attr example_dir example_attr)) = 3"
  using Attr_link_count [of example_dir example_attr]
  by (simp add: items_example_dir example_node_def)

section \<open>Extended attributes\<close>

text \<open>
  C8. The claim lets \<^verbatim>\<open>Getxattr\<close> return the stored bytes for every name that
  an attribute of the descriptor carries. The first attribute of the example
  directory is stored with a \<^verbatim>\<open>nil\<close> value, and asking for its exact name
  fails with \<^verbatim>\<open>ErrNoXattr\<close>.
\<close>

theorem Getxattr_nil_value_example:
  "ExtendedAttributes (node example_dir) =
     [\<lparr>xattr_Name = ''user.empty'', xattr_Value = None\<rparr>,
      \<lparr>xattr_Name = ''user.Comment'', xattr_Value = Some [104, 105]\<rparr>]
   \<and> Getxattr example_dir ''user.empty'' \<lparr>Xattr = None\<rparr> = Inl ErrNoXattr"
  by (simp add: Getxattr_def GetExtendedAttribute_def example_dir_def example_node_def)

text \<open>
  C8, as amended. \<^verbatim>\<open>Getxattr\<close> looks for the first attribute of the node's own
  descriptor whose name equals the requested name byte for byte. It returns
  exactly that attribute's bytes when they are not \<^verbatim>\<open>nil\<close>. It fails with
  \<^verbatim>\<open>ErrNoXattr\<close> when no name matches exactly, a name that differs only in
  case included, and when the matching attribute's value is \<^verbatim>\<open>nil\<close>.
\<close>

theorem Getxattr_first_match:
  "Getxattr d a resp =
     (case find (\<lambda>x. xattr_Name x = a) (ExtendedAttributes (node d)) of
        None \<Rightarrow> Inl ErrNoXattr
      | Some x \<Rightarrow>
          (case xattr_Value x of
             None \<Rightarrow> Inl ErrNoXattr
           | Some bs \<Rightarrow> Inr (resp\<lparr>Xattr := Some bs\<rparr>)))"
  by (simp add: Getxattr_def GetExtendedAttribute_def Let_def split: option.splits)

theorem Getxattr_first_match_witness:
  "Getxattr example_dir ''user.Comment'' \<lparr>Xattr = None\<rparr> = Inr \<lparr>Xattr = Some [104, 105]\<rparr>
   \<and> Getxattr example_dir ''user.comment'' \<lparr>Xattr = None\<rparr> = Inl ErrNoXattr
   \<and> Getxattr example_dir ''user.other'' \<lparr>Xattr = None\<rparr> = Inl ErrNoXattr"
  using Getxattr_first_match [of example_dir "''user.Comment''" "\<lparr>Xattr = None\<rparr>"]
    Getxattr_first_match [of example_dir "''user.comment''" "\<lparr>Xattr = None\<rparr>"]
    Getxattr_first_match [of example_dir "''user.other''" "\<lparr>Xattr = None\<rparr>"]
  by (simp add: example_dir_def example_node_def)

section \<open>Lookup\<close>

text \<open>
  C4. \<^verbatim>\<open>Lookup\<close> fails with \<^verbatim>\<open>ENOENT\<close> exactly when the name is not a key of
  the children or the child's kind is none of \<^verbatim>\<open>dir\<close>, \<^verbatim>\<open>file\<close> and
  \<^verbatim>\<open>symlink\<close>. For a child of kind \<^verbatim>\<open>dir\<close> it returns what \<^verbatim>\<open>newDir\<close> returns
  on that child, with the parent's repository, owner flag and cache. For a
  child of an unknown kind the result is the error \<^verbatim>\<open>ENOENT\<close>, with nothing
  allocated and no panic.
\<close>

theorem Lookup_dispatch:
  "(fst (Lookup c d name h) = Inl ENOENT \<longleftrightarrow>
      (case DAList.lookup (items d) name of
         None \<Rightarrow> True
       | Some nd \<Rightarrow> Type nd \<noteq> ''dir'' \<and> Type nd \<noteq> ''file'' \<and> Type nd \<noteq> ''symlink''))
   \<and> (\<forall>nd. DAList.lookup (items d) name = Some nd \<and> Type nd = ''dir'' \<longrightarrow>
         Lookup c d name h =
           (case newDir (repo d) nd (ownerIsRoot d) (blobsize d) h of
              (Inl err, h') \<Rightarrow> (Inl err, h')
            | (Inr p, h') \<Rightarrow> (Inr (DirNode p), h')))
   \<and> (\<forall>nd. DAList.lookup (items d) name = Some nd
           \<and> Type nd \<noteq> ''dir'' \<and> Type nd \<noteq> ''file'' \<and> Type nd \<noteq> ''symlink'' \<longrightarrow>
         Lookup c d name h = (Inl ENOENT, h))"
proof (intro conjI allI impI)
  show "fst (Lookup c d name h) = Inl ENOENT \<longleftrightarrow>
      (case DAList.lookup (items d) name of
         None \<Rightarrow> True
       | Some nd \<Rightarrow> Type nd \<noteq> ''dir'' \<and> Type nd \<noteq> ''file'' \<and> Type nd \<noteq> ''symlink'')"
  proof (cases "DAList.lookup (items d) name")
    case None
    then show ?thesis by (simp add: Lookup_def)
  next
    case (Some nd)
    show ?thesis
      using newDir_not_ENOENT [of "repo d" nd "ownerIsRoot d" "blobsize d" h]
      by (auto simp: Lookup_def Some split: prod.splits sum.splits)
  qed
next
  fix nd assume "DAList.lookup (items d) name = Some nd \<and> Type nd = ''dir''"
  then show "Lookup c d name h =
           (case newDir (repo d) nd (ownerIsRoot d) (blobsize d) h of
              (Inl err, h') \<Rightarrow> (Inl err, h')
            | (Inr p, h') \<Rightarrow> (Inr (DirNode p), h'))"
    by (simp add: Lookup_def)
next
  fix nd assume "DAList.lookup (items d) name = Some nd
           \<and> Type nd \<noteq> ''dir'' \<and> Type nd \<noteq> ''file'' \<and> Type nd \<noteq> ''symlink''"
  then show "Lookup c d name h = (Inl ENOENT, h)"
    by (simp add: Lookup_def)
qed

theorem Lookup_dispatch_witness:
  "Lookup example_constructors example_dir ''missing'' [] = (Inl ENOENT, [])
   \<and> Lookup example_constructors example_dir ''pipe'' [] = (Inl ENOENT, [])
   \<and> fst (Lookup example_constructors example_dir ''a.txt'' []) \<noteq> Inl ENOENT
   \<and> Lookup example_constructors example_dir ''sub'' [] =
       (Inr (DirNode 0),
        [\<lparr>repo = example_repo, items = DAList.empty, inode = 42,
          node = example_node ''sub'' ''dir'' 2147484141 (Some 3),
          ownerIsRoot = False, blobsize = 0\<rparr>])"
proof -
  note L = Lookup_dispatch [where c = example_constructors and d = example_dir and h = "[]"]
  have 1: "Lookup example_constructors example_dir ''pipe'' [] = (Inl ENOENT, [])"
    using L [of "''pipe''"] by (simp add: lookup_example_dir example_node_def)
  have "fst (Lookup example_constructors example_dir ''missing'' []) = Inl ENOENT"
    using L [of "''missing''"] by (simp add: lookup_example_dir)
  then have 2: "Lookup example_constructors example_dir ''missing'' [] = (Inl ENOENT, [])"
    by (simp add: Lookup_def lookup_example_dir)
  have 3: "fst (Lookup example_constructors example_dir ''a.txt'' []) \<noteq> Inl ENOENT"
    using L [of "''a.txt''"] by (simp add: lookup_example_dir example_node_def)
  have 4: "Lookup example_constructors example_dir ''sub'' [] =
       (Inr (DirNode 0),
        [\<lparr>repo = example_repo, items = DAList.empty, inode = 42,
          node = example_node ''sub'' ''dir'' 2147484141 (Some 3),
          ownerIsRoot = False, blobsize = 0\<rparr>])"
    using L [of "''sub''"]
    by (simp add: lookup_example_dir example_node_def newDir_def new_object_def
        example_dir_def example_repo_def)
  from 1 2 3 4 show ?thesis by simp
qed

text \<open>
  C9. Let the name be a child of kind \<^verbatim>\<open>dir\<close> whose subtree loads, and let the
  repository list the same descriptors for that subtree at the second call
  (\<open>r2\<close> is the repository as the parent sees it then). Two calls of
  \<^verbatim>\<open>Lookup\<close>, one after the other, return pointers to two different directory
  objects, and \<^verbatim>\<open>Attr\<close> writes the same attributes from both: inode, mode,
  owner ids or none, times and link count.
\<close>

theorem Lookup_twice_same_attributes:
  assumes "DAList.lookup (items d) name = Some nd" and "Type nd = ''dir''"
    and "Subtree nd = Some s"
    and "LoadTree (repo d) s = Inr tree" and "LoadTree r2 s = Inr tree2"
    and "Nodes tree2 = Nodes tree"
  shows "\<exists>p1 h1 p2 h2 d1 d2.
           Lookup c d name h = (Inr (DirNode p1), h1)
         \<and> Lookup c (d\<lparr>repo := r2\<rparr>) name h1 = (Inr (DirNode p2), h2)
         \<and> p1 \<noteq> p2 \<and> deref h2 p1 = Some d1 \<and> deref h2 p2 = Some d2
         \<and> (\<forall>a. Attr d1 a = Attr d2 a)"
  using assms
  by (simp add: Lookup_def newDir_def new_object_def deref_def nth_append Attr_def Let_def
      calcNumberOfLinks_def)

theorem Lookup_twice_same_attributes_witness:
  "\<exists>p1 h1 p2 h2 d1 d2.
     Lookup example_constructors example_dir ''sub'' [] = (Inr (DirNode p1), h1)
   \<and> Lookup example_constructors example_dir ''sub'' h1 = (Inr (DirNode p2), h2)
   \<and> p1 \<noteq> p2 \<and> deref h2 p1 = Some d1 \<and> deref h2 p2 = Some d2
   \<and> Attr d1 example_attr = Attr d2 example_attr"
proof -
  have a: "DAList.lookup (items example_dir) ''sub'' =
      Some (example_node ''sub'' ''dir'' 2147484141 (Some 3))"
    by (simp add: lookup_example_dir)
  have b: "Type (example_node ''sub'' ''dir'' 2147484141 (Some 3)) = ''dir''"
    and c: "Subtree (example_node ''sub'' ''dir'' 2147484141 (Some 3)) = Some 3"
    by (simp_all add: example_node_def)
  have e: "LoadTree (repo example_dir) 3 = Inr \<lparr>Nodes = []\<rparr>"
    and f: "LoadTree example_repo 3 = Inr \<lparr>Nodes = []\<rparr>"
    by (simp_all add: example_dir_def example_repo_def)
  have g: "example_dir\<lparr>repo := example_repo\<rparr> = example_dir"
    by (simp add: example_dir_def)
  from Lookup_twice_same_attributes [OF a b c e f refl, of example_constructors "[]"]
  show ?thesis unfolding g by blast
qed

end
